theory Spec2Isabelle
  imports Main "HOL-Library.Word"
begin

section \<open>The host runtime as the bridge sees it\<close>

text \<open>
  ExternalInterface.cpp talks to two outside parties: the host scripting runtime, through
  the functions of hx/CFFI.h, and the native SDK, through the functions declared in
  SamcodesChartboost.h. Neither header is part of the sources, so both parties are
  modelled only as far as the bridge uses them: host values are a datatype whose
  constructors are the allocation functions the bridge calls, host objects live in a
  store, and every call that leaves the bridge is appended to a log. The allocation
  functions of hx/CFFI.h show in the values and objects they build; the other calls into
  the host runtime (\<open>val_call1\<close>, \<open>val_bool\<close>) and all calls of the SDK show in the log.

  A \<open>const char*\<close> is modelled as the string it points to (the pointers the bridge
  hands on are never null in the model), a C \<open>int\<close> as a 32-bit word.
\<close>

type_synonym c_string = string
type_synonym c_int = "32 word"
type_synonym field_id = string
type_synonym addr = nat

datatype hx_value =
    val_null
  | alloc_string c_string
  | alloc_int c_int
  | alloc_bool bool
  | hx_object addr
  | hx_function nat

type_synonym hx_fields = "field_id \<rightharpoonup> hx_value"

text \<open>\<open>HxString\<close> (hx/CFFIPrime.h) wraps a character pointer; \<open>c_str\<close> reads it back.\<close>

datatype HxString = HxString (c_str: c_string)

text \<open>\<open>AutoGCRoot\<close> keeps a host value alive; \<open>get\<close> returns the value it was built from.\<close>

datatype AutoGCRoot = AutoGCRoot (get: hx_value)

text \<open>
  The calls that leave the bridge, named as the source names them. The identifier
  \<open>returnhasRewardedVideo\<close> is the one written in \<open>has_rewarded_video\<close>;
  \<open>hasRewardedVideo\<close> is the SDK function of SamcodesChartboost.h.
\<close>

datatype call =
    showInterstitial c_string
  | cacheInterstitial c_string
  | hasInterstitial c_string
  | showRewardedVideo c_string
  | cacheRewardedVideo c_string
  | hasRewardedVideo c_string
  | returnhasRewardedVideo c_string
  | isAnyViewVisible
  | setCustomId c_string
  | getCustomId
  | setShouldRequestInterstitialsInFirstSession bool
  | getAutoCacheAds
  | setAutoCacheAds bool
  | setShouldPrefetchVideoContent bool
  | getSDKVersion
  | setStatusBarBehavior bool
  | setMuted bool
  | restrictDataCollection bool
  | val_call1 hx_value hx_value
  | val_bool bool

text \<open>
  What the native SDK answers when one of its value-returning functions is called. The
  SDK is closed source, so its answers are a parameter of every function that asks.
\<close>

record sdk =
  hasInterstitial_result :: "c_string \<Rightarrow> bool"
  hasRewardedVideo_result :: "c_string \<Rightarrow> bool"
  isAnyViewVisible_result :: bool
  getCustomId_result :: c_string
  getAutoCacheAds_result :: bool
  getSDKVersion_result :: c_string

text \<open>
  The state: the one global variable of the bridge, \<open>chartboostEventHandle\<close> (a null
  pointer is \<open>None\<close>), the host runtime's object store, and the log of calls made so far.
\<close>

record bridge_state =
  chartboostEventHandle :: "AutoGCRoot option"
  objects :: "hx_fields list"
  calls :: "call list"

definition initial_state :: bridge_state where
  "initial_state = \<lparr>chartboostEventHandle = None, objects = [], calls = []\<rparr>"

subsection \<open>The functions of hx/CFFI.h the bridge uses\<close>

definition val_id :: "string \<Rightarrow> field_id" where
  "val_id name = name"

definition alloc_empty_object :: "bridge_state \<Rightarrow> hx_value \<times> bridge_state" where
  "alloc_empty_object s =
     (hx_object (length (objects s)), s\<lparr>objects := objects s @ [Map.empty]\<rparr>)"

text \<open>
  \<open>alloc_field\<close> stores into the object in place. On a value that is no object of the
  store the model leaves the state as it is; the bridge only ever passes the object it
  has just allocated.
\<close>

definition alloc_field :: "hx_value \<Rightarrow> field_id \<Rightarrow> hx_value \<Rightarrow> bridge_state \<Rightarrow> bridge_state" where
  "alloc_field obj fid v s =
     (case obj of
        hx_object a \<Rightarrow>
          if a < length (objects s)
          then s\<lparr>objects := (objects s)[a := (objects s ! a)(fid \<mapsto> v)]\<rparr>
          else s
      | _ \<Rightarrow> s)"

definition val_field :: "bridge_state \<Rightarrow> hx_value \<Rightarrow> field_id \<Rightarrow> hx_value option" where
  "val_field s obj fid =
     (case obj of
        hx_object a \<Rightarrow> if a < length (objects s) then (objects s ! a) fid else None
      | _ \<Rightarrow> None)"

definition perform :: "call \<Rightarrow> bridge_state \<Rightarrow> bridge_state" where
  "perform c s = s\<lparr>calls := calls s @ [c]\<rparr>"

section \<open>ExternalInterface.cpp\<close>

definition set_listener :: "hx_value \<Rightarrow> bridge_state \<Rightarrow> bridge_state" where
  "set_listener onEvent s = s\<lparr>chartboostEventHandle := Some (AutoGCRoot onEvent)\<rparr>"

definition show_interstitial :: "HxString \<Rightarrow> bridge_state \<Rightarrow> bridge_state" where
  "show_interstitial location s = perform (showInterstitial (c_str location)) s"

definition cache_interstitial :: "HxString \<Rightarrow> bridge_state \<Rightarrow> bridge_state" where
  "cache_interstitial location s = perform (cacheInterstitial (c_str location)) s"

text \<open>
  \<open>has_interstitial\<close> is declared \<open>static void\<close>: whatever its body computes, the
  function hands no value to its caller. The model's result type is \<open>unit\<close>.
\<close>

definition has_interstitial :: "sdk \<Rightarrow> HxString \<Rightarrow> bridge_state \<Rightarrow> unit \<times> bridge_state" where
  "has_interstitial k location s =
     (let r = hasInterstitial_result k (c_str location)
      in ((), perform (hasInterstitial (c_str location)) s))"

definition show_rewarded_video :: "HxString \<Rightarrow> bridge_state \<Rightarrow> bridge_state" where
  "show_rewarded_video location s = perform (showRewardedVideo (c_str location)) s"

definition cache_rewarded_video :: "HxString \<Rightarrow> bridge_state \<Rightarrow> bridge_state" where
  "cache_rewarded_video location s = perform (cacheRewardedVideo (c_str location)) s"

text \<open>
  The body of \<open>has_rewarded_video\<close> is the single expression statement
  \<open>returnhasRewardedVideo(location.c_str());\<close>: a call of that identifier, whose
  result is dropped. Control then reaches the end of a \<open>bool\<close> function without a
  \<open>return\<close>; the model's result is \<open>None\<close> there.
\<close>

definition has_rewarded_video :: "sdk \<Rightarrow> HxString \<Rightarrow> bridge_state \<Rightarrow> bool option \<times> bridge_state" where
  "has_rewarded_video k location s =
     (None, perform (returnhasRewardedVideo (c_str location)) s)"

definition is_any_view_visible :: "sdk \<Rightarrow> bridge_state \<Rightarrow> bool \<times> bridge_state" where
  "is_any_view_visible k s = (isAnyViewVisible_result k, perform isAnyViewVisible s)"

definition set_custom_id :: "HxString \<Rightarrow> bridge_state \<Rightarrow> bridge_state" where
  "set_custom_id id' s = perform (setCustomId (c_str id')) s"

definition get_custom_id :: "sdk \<Rightarrow> bridge_state \<Rightarrow> c_string \<times> bridge_state" where
  "get_custom_id k s = (getCustomId_result k, perform getCustomId s)"

definition set_should_request_interstitials_in_first_session ::
  "bool \<Rightarrow> bridge_state \<Rightarrow> bridge_state" where
  "set_should_request_interstitials_in_first_session shouldRequest s =
     perform (setShouldRequestInterstitialsInFirstSession shouldRequest) s"

definition get_auto_cache_ads :: "sdk \<Rightarrow> bridge_state \<Rightarrow> bool \<times> bridge_state" where
  "get_auto_cache_ads k s = (getAutoCacheAds_result k, perform getAutoCacheAds s)"

definition set_auto_cache_ads :: "bool \<Rightarrow> bridge_state \<Rightarrow> bridge_state" where
  "set_auto_cache_ads autoCache s = perform (setAutoCacheAds autoCache) s"

definition set_should_prefetch_video_content :: "bool \<Rightarrow> bridge_state \<Rightarrow> bridge_state" where
  "set_should_prefetch_video_content shouldPrefetch s =
     perform (setShouldPrefetchVideoContent shouldPrefetch) s"

definition get_sdk_version :: "sdk \<Rightarrow> bridge_state \<Rightarrow> HxString \<times> bridge_state" where
  "get_sdk_version k s = (HxString (getSDKVersion_result k), perform getSDKVersion s)"

text \<open>
  The body of \<open>set_status_bar_behavior\<close> is
  \<open>setStatusBarBehavior(val_bool(shouldHide));\<close>: first a call of \<open>val_bool\<close> of
  hx/CFFI.h on the parameter, a C++ \<open>bool\<close> here, then the SDK call on what \<open>val_bool\<close>
  answered. The header is not part of the sources, so the answer is a parameter,
  \<open>val_bool_result\<close>, about which nothing is assumed.
\<close>

definition set_status_bar_behavior ::
  "(bool \<Rightarrow> bool) \<Rightarrow> bool \<Rightarrow> bridge_state \<Rightarrow> bridge_state" where
  "set_status_bar_behavior val_bool_result shouldHide s =
     perform (setStatusBarBehavior (val_bool_result shouldHide))
       (perform (val_bool shouldHide) s)"

definition set_muted :: "bool \<Rightarrow> bridge_state \<Rightarrow> bridge_state" where
  "set_muted mute s = perform (setMuted mute) s"

definition restrict_data_collection :: "bool \<Rightarrow> bridge_state \<Rightarrow> bridge_state" where
  "restrict_data_collection shouldRestrict s = perform (restrictDataCollection shouldRestrict) s"

definition samcodeschartboost_main :: "bridge_state \<Rightarrow> bridge_state" where
  "samcodeschartboost_main s = s"

definition samcodeschartboost_register_prims :: "bridge_state \<Rightarrow> c_int \<times> bridge_state" where
  "samcodeschartboost_register_prims s = (0, s)"

definition sendChartboostEvent ::
  "c_string \<Rightarrow> c_string \<Rightarrow> c_string \<Rightarrow> c_int \<Rightarrow> c_int \<Rightarrow> bool \<Rightarrow> bridge_state \<Rightarrow> bridge_state" where
  "sendChartboostEvent type location uri reward_coins error status s =
     (case chartboostEventHandle s of
        None \<Rightarrow> s
      | Some root \<Rightarrow>
          (let (obj, s0) = alloc_empty_object s;
               s1 = alloc_field obj (val_id ''type'') (alloc_string type) s0;
               s2 = alloc_field obj (val_id ''location'') (alloc_string location) s1;
               s3 = alloc_field obj (val_id ''uri'') (alloc_string uri) s2;
               s4 = alloc_field obj (val_id ''reward_coins'') (alloc_int reward_coins) s3;
               s5 = alloc_field obj (val_id ''error'') (alloc_int error) s4;
               s6 = alloc_field obj (val_id ''status'') (alloc_bool status) s5
           in perform (val_call1 (get root) obj) s6))"

text \<open>
  Everything above stands between \<open>#ifdef IPHONE\<close> and \<open>#endif\<close>; on other
  targets the file defines nothing.
\<close>

subsection \<open>Sequences of calls into the bridge\<close>

text \<open>
  One constructor for each function the bridge exports, with its arguments. \<open>exec\<close>
  runs one of them and keeps the state (results go to the caller), \<open>run\<close> runs a
  sequence, and \<open>listeners\<close> collects the handlers a sequence registers, in order.
\<close>

datatype exported =
    Set_listener hx_value
  | Show_interstitial HxString
  | Cache_interstitial HxString
  | Has_interstitial HxString
  | Show_rewarded_video HxString
  | Cache_rewarded_video HxString
  | Has_rewarded_video HxString
  | Is_any_view_visible
  | Set_custom_id HxString
  | Get_custom_id
  | Set_should_request_interstitials_in_first_session bool
  | Get_auto_cache_ads
  | Set_auto_cache_ads bool
  | Set_should_prefetch_video_content bool
  | Get_sdk_version
  | Set_status_bar_behavior bool
  | Set_muted bool
  | Restrict_data_collection bool
  | Samcodeschartboost_main
  | Samcodeschartboost_register_prims
  | SendChartboostEvent c_string c_string c_string c_int c_int bool

fun exec :: "(bool \<Rightarrow> bool) \<Rightarrow> sdk \<Rightarrow> exported \<Rightarrow> bridge_state \<Rightarrow> bridge_state" where
  "exec vb k (Set_listener onEvent) s = set_listener onEvent s"
| "exec vb k (Show_interstitial location) s = show_interstitial location s"
| "exec vb k (Cache_interstitial location) s = cache_interstitial location s"
| "exec vb k (Has_interstitial location) s = snd (has_interstitial k location s)"
| "exec vb k (Show_rewarded_video location) s = show_rewarded_video location s"
| "exec vb k (Cache_rewarded_video location) s = cache_rewarded_video location s"
| "exec vb k (Has_rewarded_video location) s = snd (has_rewarded_video k location s)"
| "exec vb k Is_any_view_visible s = snd (is_any_view_visible k s)"
| "exec vb k (Set_custom_id id') s = set_custom_id id' s"
| "exec vb k Get_custom_id s = snd (get_custom_id k s)"
| "exec vb k (Set_should_request_interstitials_in_first_session b) s =
     set_should_request_interstitials_in_first_session b s"
| "exec vb k Get_auto_cache_ads s = snd (get_auto_cache_ads k s)"
| "exec vb k (Set_auto_cache_ads b) s = set_auto_cache_ads b s"
| "exec vb k (Set_should_prefetch_video_content b) s = set_should_prefetch_video_content b s"
| "exec vb k Get_sdk_version s = snd (get_sdk_version k s)"
| "exec vb k (Set_status_bar_behavior b) s = set_status_bar_behavior vb b s"
| "exec vb k (Set_muted b) s = set_muted b s"
| "exec vb k (Restrict_data_collection b) s = restrict_data_collection b s"
| "exec vb k Samcodeschartboost_main s = samcodeschartboost_main s"
| "exec vb k Samcodeschartboost_register_prims s = snd (samcodeschartboost_register_prims s)"
| "exec vb k (SendChartboostEvent t l u rc e st) s = sendChartboostEvent t l u rc e st s"

fun run :: "(bool \<Rightarrow> bool) \<Rightarrow> sdk \<Rightarrow> exported list \<Rightarrow> bridge_state \<Rightarrow> bridge_state" where
  "run vb k [] s = s"
| "run vb k (c # cs) s = run vb k cs (exec vb k c s)"

fun listeners :: "exported list \<Rightarrow> hx_value list" where
  "listeners [] = []"
| "listeners (Set_listener onEvent # cs) = onEvent # listeners cs"
| "listeners (_ # cs) = listeners cs"

section \<open>CHBAdDelegate.h: the error codes\<close>

text \<open>
  The header declares three \<open>NS_ENUM(NSUInteger, ...)\<close> enumerations, every enumerator
  with an explicit value. Each is a datatype with a function giving the declared value.
\<close>

datatype CHBCacheErrorCode =
    CHBCacheErrorCodeInternal
  | CHBCacheErrorCodeInternetUnavailable
  | CHBCacheErrorCodeNetworkFailure
  | CHBCacheErrorCodeNoAdFound
  | CHBCacheErrorCodeSessionNotStarted
  | CHBCacheErrorCodeAssetDownloadFailure

fun CHBCacheErrorCode_value :: "CHBCacheErrorCode \<Rightarrow> nat" where
  "CHBCacheErrorCode_value CHBCacheErrorCodeInternal = 0"
| "CHBCacheErrorCode_value CHBCacheErrorCodeInternetUnavailable = 1"
| "CHBCacheErrorCode_value CHBCacheErrorCodeNetworkFailure = 5"
| "CHBCacheErrorCode_value CHBCacheErrorCodeNoAdFound = 6"
| "CHBCacheErrorCode_value CHBCacheErrorCodeSessionNotStarted = 7"
| "CHBCacheErrorCode_value CHBCacheErrorCodeAssetDownloadFailure = 16"

datatype CHBShowErrorCode =
    CHBShowErrorCodeInternal
  | CHBShowErrorCodeSessionNotStarted
  | CHBShowErrorCodeAdAlreadyVisible
  | CHBShowErrorCodeInternetUnavailable
  | CHBShowErrorCodePresentationFailure
  | CHBShowErrorCodeNoCachedAd

fun CHBShowErrorCode_value :: "CHBShowErrorCode \<Rightarrow> nat" where
  "CHBShowErrorCode_value CHBShowErrorCodeInternal = 0"
| "CHBShowErrorCode_value CHBShowErrorCodeSessionNotStarted = 7"
| "CHBShowErrorCode_value CHBShowErrorCodeAdAlreadyVisible = 8"
| "CHBShowErrorCode_value CHBShowErrorCodeInternetUnavailable = 25"
| "CHBShowErrorCode_value CHBShowErrorCodePresentationFailure = 33"
| "CHBShowErrorCode_value CHBShowErrorCodeNoCachedAd = 34"

datatype CHBClickErrorCode =
    CHBClickErrorCodeUriInvalid
  | CHBClickErrorCodeUriUnrecognized
  | CHBClickErrorCodeConfirmationGateFailure
  | CHBClickErrorCodeInternal

fun CHBClickErrorCode_value :: "CHBClickErrorCode \<Rightarrow> nat" where
  "CHBClickErrorCode_value CHBClickErrorCodeUriInvalid = 0"
| "CHBClickErrorCode_value CHBClickErrorCodeUriUnrecognized = 1"
| "CHBClickErrorCode_value CHBClickErrorCodeConfirmationGateFailure = 2"
| "CHBClickErrorCode_value CHBClickErrorCodeInternal = 3"

text \<open>
  The header's three error classes \<open>CHBCacheError\<close>, \<open>CHBShowError\<close> and
  \<open>CHBClickError\<close> each carry a \<open>code\<close> of their own enumeration and are passed to
  the delegate methods together with an event of the matching class.
\<close>

datatype CHBError =
    CHBCacheError CHBCacheErrorCode
  | CHBShowError CHBShowErrorCode
  | CHBClickError CHBClickErrorCode

datatype CHBEventKind = CHBCacheEvent | CHBShowEvent | CHBClickEvent

fun code :: "CHBError \<Rightarrow> nat" where
  "code (CHBCacheError c) = CHBCacheErrorCode_value c"
| "code (CHBShowError c) = CHBShowErrorCode_value c"
| "code (CHBClickError c) = CHBClickErrorCode_value c"

fun event_kind :: "CHBError \<Rightarrow> CHBEventKind" where
  "event_kind (CHBCacheError c) = CHBCacheEvent"
| "event_kind (CHBShowError c) = CHBShowEvent"
| "event_kind (CHBClickError c) = CHBClickEvent"

section \<open>Basic facts\<close>

lemma handle_perform [simp]: "chartboostEventHandle (perform c s) = chartboostEventHandle s"
  by (simp add: perform_def)

lemma handle_alloc_field [simp]:
  "chartboostEventHandle (alloc_field obj fid v s) = chartboostEventHandle s"
  by (simp add: alloc_field_def split: hx_value.splits)

lemma objects_perform [simp]: "objects (perform c s) = objects s"
  by (simp add: perform_def)

lemma calls_alloc_field [simp]: "calls (alloc_field obj fid v s) = calls s"
  by (simp add: alloc_field_def split: hx_value.splits)

lemma alloc_field_fresh:
  "a < length (objects s) \<Longrightarrow>
   alloc_field (hx_object a) fid v s = s\<lparr>objects := (objects s)[a := (objects s ! a)(fid \<mapsto> v)]\<rparr>"
  by (simp add: alloc_field_def)

text \<open>With a handle in place, the event function allocates one object and makes one call.\<close>

lemma sendChartboostEvent_registered:
  assumes "chartboostEventHandle s = Some root"
  shows "sendChartboostEvent type location uri reward_coins error status s =
    s\<lparr>objects := objects s @
         [[''type'' \<mapsto> alloc_string type, ''location'' \<mapsto> alloc_string location,
           ''uri'' \<mapsto> alloc_string uri, ''reward_coins'' \<mapsto> alloc_int reward_coins,
           ''error'' \<mapsto> alloc_int error, ''status'' \<mapsto> alloc_bool status]],
      calls := calls s @ [val_call1 (get root) (hx_object (length (objects s)))]\<rparr>"
  using assms
  by (simp add: sendChartboostEvent_def alloc_empty_object_def alloc_field_def val_id_def
      perform_def)

lemma handle_sendChartboostEvent:
  "chartboostEventHandle (sendChartboostEvent t l u rc e st s) = chartboostEventHandle s"
  by (cases "chartboostEventHandle s")
     (simp_all add: sendChartboostEvent_def alloc_empty_object_def split: prod.splits)

lemma handle_exec:
  "chartboostEventHandle (exec vb k c s) =
     (case c of Set_listener onEvent \<Rightarrow> Some (AutoGCRoot onEvent) | _ \<Rightarrow> chartboostEventHandle s)"
  by (cases c)
     (simp_all add: set_listener_def show_interstitial_def cache_interstitial_def
        has_interstitial_def show_rewarded_video_def cache_rewarded_video_def
        has_rewarded_video_def is_any_view_visible_def set_custom_id_def get_custom_id_def
        set_should_request_interstitials_in_first_session_def get_auto_cache_ads_def
        set_auto_cache_ads_def set_should_prefetch_video_content_def get_sdk_version_def
        set_status_bar_behavior_def set_muted_def restrict_data_collection_def
        samcodeschartboost_main_def samcodeschartboost_register_prims_def
        handle_sendChartboostEvent)

lemma handle_run:
  "chartboostEventHandle (run vb k cs s) =
     (if listeners cs = [] then chartboostEventHandle s
      else Some (AutoGCRoot (last (listeners cs))))"
proof (induction cs arbitrary: s)
  case Nil
  show ?case by simp
next
  case (Cons c cs)
  have "chartboostEventHandle (run vb k (c # cs) s) =
        (if listeners cs = [] then chartboostEventHandle (exec vb k c s)
         else Some (AutoGCRoot (last (listeners cs))))"
    by (simp add: Cons.IH del: exec.simps)
  then show ?case
    by (cases c) (simp_all add: handle_exec del: exec.simps)
qed

text \<open>Each enumeration gives different codes to different enumerators and has no others.\<close>

lemma CHBCacheErrorCode_value_inj:
  "(CHBCacheErrorCode_value x = CHBCacheErrorCode_value y) = (x = y)"
  by (cases x; cases y) simp_all

lemma CHBShowErrorCode_value_inj:
  "(CHBShowErrorCode_value x = CHBShowErrorCode_value y) = (x = y)"
  by (cases x; cases y) simp_all

lemma CHBClickErrorCode_value_inj:
  "(CHBClickErrorCode_value x = CHBClickErrorCode_value y) = (x = y)"
  by (cases x; cases y) simp_all

lemma CHBCacheErrorCode_UNIV:
  "(UNIV :: CHBCacheErrorCode set) =
     {CHBCacheErrorCodeInternal, CHBCacheErrorCodeInternetUnavailable,
      CHBCacheErrorCodeNetworkFailure, CHBCacheErrorCodeNoAdFound,
      CHBCacheErrorCodeSessionNotStarted, CHBCacheErrorCodeAssetDownloadFailure}"
proof -
  have "x \<in> {CHBCacheErrorCodeInternal, CHBCacheErrorCodeInternetUnavailable,
      CHBCacheErrorCodeNetworkFailure, CHBCacheErrorCodeNoAdFound,
      CHBCacheErrorCodeSessionNotStarted, CHBCacheErrorCodeAssetDownloadFailure}" for x
    by (cases x) simp_all
  then show ?thesis by blast
qed

lemma CHBShowErrorCode_UNIV:
  "(UNIV :: CHBShowErrorCode set) =
     {CHBShowErrorCodeInternal, CHBShowErrorCodeSessionNotStarted,
      CHBShowErrorCodeAdAlreadyVisible, CHBShowErrorCodeInternetUnavailable,
      CHBShowErrorCodePresentationFailure, CHBShowErrorCodeNoCachedAd}"
proof -
  have "x \<in> {CHBShowErrorCodeInternal, CHBShowErrorCodeSessionNotStarted,
      CHBShowErrorCodeAdAlreadyVisible, CHBShowErrorCodeInternetUnavailable,
      CHBShowErrorCodePresentationFailure, CHBShowErrorCodeNoCachedAd}" for x
    by (cases x) simp_all
  then show ?thesis by blast
qed

lemma CHBClickErrorCode_UNIV:
  "(UNIV :: CHBClickErrorCode set) =
     {CHBClickErrorCodeUriInvalid, CHBClickErrorCodeUriUnrecognized,
      CHBClickErrorCodeConfirmationGateFailure, CHBClickErrorCodeInternal}"
proof -
  have "x \<in> {CHBClickErrorCodeUriInvalid, CHBClickErrorCodeUriUnrecognized,
      CHBClickErrorCodeConfirmationGateFailure, CHBClickErrorCodeInternal}" for x
    by (cases x) simp_all
  then show ?thesis by blast
qed

section \<open>The properties\<close>

text \<open>
  C1. While a handler is registered (the handle is not null), a call of
  \<open>sendChartboostEvent\<close> allocates one host object, gives it exactly the six fields
  \<open>type\<close>, \<open>location\<close>, \<open>uri\<close> (strings), \<open>reward_coins\<close>, \<open>error\<close> (integers)
  and \<open>status\<close> (boolean) holding the arguments, and calls the registered handler once,
  with that object. Nothing else changes.
\<close>

theorem sendChartboostEvent_builds_record_and_calls_handler:
  assumes "chartboostEventHandle s = Some root"
  shows "sendChartboostEvent type location uri reward_coins error status s =
    s\<lparr>objects := objects s @
         [[''type'' \<mapsto> alloc_string type, ''location'' \<mapsto> alloc_string location,
           ''uri'' \<mapsto> alloc_string uri, ''reward_coins'' \<mapsto> alloc_int reward_coins,
           ''error'' \<mapsto> alloc_int error, ''status'' \<mapsto> alloc_bool status]],
      calls := calls s @ [val_call1 (get root) (hx_object (length (objects s)))]\<rparr>"
  using assms by (rule sendChartboostEvent_registered)

text \<open>
  C1, at a concrete event: a handler registered through \<open>set_listener\<close> in the initial
  state, then one cache event.
\<close>

theorem sendChartboostEvent_builds_record_witness:
  "chartboostEventHandle (set_listener (hx_function 0) initial_state) =
     Some (AutoGCRoot (hx_function 0)) \<and>
   sendChartboostEvent ''didCacheInterstitial'' ''Default'' ''http://a.b'' 5 0 True
       (set_listener (hx_function 0) initial_state) =
     \<lparr>chartboostEventHandle = Some (AutoGCRoot (hx_function 0)),
      objects = [[''type'' \<mapsto> alloc_string ''didCacheInterstitial'',
                  ''location'' \<mapsto> alloc_string ''Default'',
                  ''uri'' \<mapsto> alloc_string ''http://a.b'',
                  ''reward_coins'' \<mapsto> alloc_int 5,
                  ''error'' \<mapsto> alloc_int 0, ''status'' \<mapsto> alloc_bool True]],
      calls = [val_call1 (hx_function 0) (hx_object 0)]\<rparr>"
proof -
  have h: "chartboostEventHandle (set_listener (hx_function 0) initial_state) =
     Some (AutoGCRoot (hx_function 0))"
    by (simp add: set_listener_def)
  show ?thesis
    using h sendChartboostEvent_builds_record_and_calls_handler
      [OF h, of "''didCacheInterstitial''" "''Default''" "''http://a.b''" 5 0 True]
    by (simp add: set_listener_def initial_state_def)
qed

text \<open>
  C2. \<open>has_rewarded_video\<close> was meant to return what \<open>hasRewardedVideo\<close> answers for the
  location. The source has the words \<open>return\<close> and \<open>hasRewardedVideo\<close> run together,
  so at the location \<open>Default\<close> the function calls the identifier
  \<open>returnhasRewardedVideo\<close>, never calls \<open>hasRewardedVideo\<close>, and returns no value,
  whatever the SDK would have answered.
\<close>

theorem has_rewarded_video_calls_other_identifier:
  "has_rewarded_video k (HxString ''Default'') initial_state =
     (None, initial_state\<lparr>calls := [returnhasRewardedVideo ''Default'']\<rparr>) \<and>
   hasRewardedVideo ''Default'' \<notin>
     set (calls (snd (has_rewarded_video k (HxString ''Default'') initial_state)))"
  by (simp add: has_rewarded_video_def perform_def initial_state_def)

text \<open>
  C3. \<open>has_interstitial\<close> was meant to hand the answer of \<open>hasInterstitial\<close> to the host.
  It does call \<open>hasInterstitial\<close> with the location, but it is declared \<open>void\<close>: its
  caller gets the same (empty) result whether the SDK answers true or false.
\<close>

theorem has_interstitial_result_is_void:
  "fst (has_interstitial (k\<lparr>hasInterstitial_result := (hasInterstitial_result k)(''Default'' := True)\<rparr>)
         (HxString ''Default'') initial_state) =
   fst (has_interstitial (k\<lparr>hasInterstitial_result := (hasInterstitial_result k)(''Default'' := False)\<rparr>)
         (HxString ''Default'') initial_state) \<and>
   calls (snd (has_interstitial k (HxString ''Default'') initial_state)) =
     [hasInterstitial ''Default'']"
  by (simp add: has_interstitial_def perform_def initial_state_def)

text \<open>
  C4, as the bridge has it. The handle is written by \<open>set_listener\<close> and by no other
  exported function: one call leaves the handle as it was unless it is \<open>set_listener\<close>,
  which replaces it by a root of the new handler; after a sequence of calls the handle is
  the one it was before if the sequence registers no handler, and otherwise a root of the
  handler registered last. Nothing limits \<open>set_listener\<close> to one call.
\<close>

theorem handle_written_by_set_listener_only:
  "chartboostEventHandle (exec vb k c s) =
     (case c of Set_listener onEvent \<Rightarrow> Some (AutoGCRoot onEvent)
      | _ \<Rightarrow> chartboostEventHandle s) \<and>
   chartboostEventHandle (run vb k cs s) =
     (if listeners cs = [] then chartboostEventHandle s
      else Some (AutoGCRoot (last (listeners cs))))"
  using handle_exec [of vb k c s] handle_run [of vb k cs s] by (rule conjI)

text \<open>
  C4, as stated, says the handle is set once. Two calls of \<open>set_listener\<close> with two
  handlers set it twice: the second call replaces the first handler.
\<close>

theorem handle_set_twice_counterexample:
  "chartboostEventHandle (set_listener (hx_function 0) initial_state) =
     Some (AutoGCRoot (hx_function 0)) \<and>
   chartboostEventHandle (set_listener (hx_function 1) (set_listener (hx_function 0) initial_state)) =
     Some (AutoGCRoot (hx_function 1)) \<and>
   chartboostEventHandle (set_listener (hx_function 1) (set_listener (hx_function 0) initial_state)) \<noteq>
     chartboostEventHandle (set_listener (hx_function 0) initial_state)"
  by (simp add: set_listener_def)

text \<open>
  C5. Each of \<open>show_interstitial\<close>, \<open>cache_interstitial\<close>, \<open>show_rewarded_video\<close> and
  \<open>cache_rewarded_video\<close> makes exactly one call, of the SDK function of the same name,
  with \<open>location.c_str()\<close> as its only argument, and leaves the rest of the state alone.
\<close>

theorem ad_functions_pass_location_through:
  "show_interstitial location s = s\<lparr>calls := calls s @ [showInterstitial (c_str location)]\<rparr> \<and>
   cache_interstitial location s = s\<lparr>calls := calls s @ [cacheInterstitial (c_str location)]\<rparr> \<and>
   show_rewarded_video location s = s\<lparr>calls := calls s @ [showRewardedVideo (c_str location)]\<rparr> \<and>
   cache_rewarded_video location s = s\<lparr>calls := calls s @ [cacheRewardedVideo (c_str location)]\<rparr>"
  by (simp add: show_interstitial_def cache_interstitial_def show_rewarded_video_def
      cache_rewarded_video_def perform_def)

text \<open>
  C6. The error code reaches the host as it came: when a handler is registered, the one call
  made is the handler's, and the \<open>error\<close> field of the object it receives is the integer
  \<open>error\<close> that \<open>sendChartboostEvent\<close> was given.
\<close>

theorem error_code_forwarded_unchanged:
  assumes "chartboostEventHandle s = Some root"
  shows "calls (sendChartboostEvent type location uri reward_coins error status s) =
           calls s @ [val_call1 (get root) (hx_object (length (objects s)))] \<and>
         val_field (sendChartboostEvent type location uri reward_coins error status s)
           (hx_object (length (objects s))) (val_id ''error'') = Some (alloc_int error)"
  by (simp add: sendChartboostEvent_registered [OF assms] val_field_def val_id_def)

text \<open>
  C6, at a concrete event: a failed load with error code 7.
\<close>

theorem error_code_forwarded_witness:
  "chartboostEventHandle (set_listener (hx_function 3) initial_state) =
     Some (AutoGCRoot (hx_function 3)) \<and>
   calls (sendChartboostEvent ''didFailToLoadInterstitial'' ''Default'' [] 0 7 False
            (set_listener (hx_function 3) initial_state)) =
     [val_call1 (hx_function 3) (hx_object 0)] \<and>
   val_field (sendChartboostEvent ''didFailToLoadInterstitial'' ''Default'' [] 0 7 False
                (set_listener (hx_function 3) initial_state))
     (hx_object 0) (val_id ''error'') = Some (alloc_int 7)"
proof -
  have h: "chartboostEventHandle (set_listener (hx_function 3) initial_state) =
     Some (AutoGCRoot (hx_function 3))"
    by (simp add: set_listener_def)
  show ?thesis
    using h error_code_forwarded_unchanged
      [OF h, of "''didFailToLoadInterstitial''" "''Default''" "[]" 0 7 False]
    by (simp add: set_listener_def initial_state_def)
qed

text \<open>
  C7. \<open>set_status_bar_behavior\<close> was meant to pass \<open>shouldHide\<close> on as it is and do
  nothing else. It does two things instead: it calls \<open>val_bool\<close> on \<open>shouldHide\<close>, and
  it passes the answer of that call, not the parameter, to \<open>setStatusBarBehavior\<close>.
  Whatever \<open>val_bool\<close> answers, the outcome is not the single call
  \<open>setStatusBarBehavior(shouldHide)\<close>; so it is for \<open>shouldHide = true\<close> in the
  initial state.
\<close>

theorem set_status_bar_behavior_calls_val_bool:
  "set_status_bar_behavior val_bool_result shouldHide s =
     s\<lparr>calls := calls s @
         [val_bool shouldHide, setStatusBarBehavior (val_bool_result shouldHide)]\<rparr> \<and>
   set_status_bar_behavior val_bool_result shouldHide s \<noteq>
     s\<lparr>calls := calls s @ [setStatusBarBehavior shouldHide]\<rparr> \<and>
   calls (set_status_bar_behavior val_bool_result True initial_state) =
     [val_bool True, setStatusBarBehavior (val_bool_result True)]"
proof -
  have run: "set_status_bar_behavior val_bool_result b t =
      t\<lparr>calls := calls t @ [val_bool b, setStatusBarBehavior (val_bool_result b)]\<rparr>" for b t
    by (simp add: set_status_bar_behavior_def perform_def)
  have "calls (set_status_bar_behavior val_bool_result shouldHide s) \<noteq>
      calls (s\<lparr>calls := calls s @ [setStatusBarBehavior shouldHide]\<rparr>)"
    by (simp add: run)
  then have "set_status_bar_behavior val_bool_result shouldHide s \<noteq>
      s\<lparr>calls := calls s @ [setStatusBarBehavior shouldHide]\<rparr>"
    by metis
  then show ?thesis
    by (simp add: run initial_state_def)
qed

text \<open>
  C8. The three enumerations declare exactly these enumerators, with exactly these values:
  cache errors Internal 0, InternetUnavailable 1, NetworkFailure 5, NoAdFound 6,
  SessionNotStarted 7, AssetDownloadFailure 16; show errors Internal 0, SessionNotStarted 7,
  AdAlreadyVisible 8, InternetUnavailable 25, PresentationFailure 33, NoCachedAd 34; click
  errors UriInvalid 0, UriUnrecognized 1, ConfirmationGateFailure 2, Internal 3.
\<close>

theorem error_code_enumerations:
  "UNIV = {CHBCacheErrorCodeInternal, CHBCacheErrorCodeInternetUnavailable,
      CHBCacheErrorCodeNetworkFailure, CHBCacheErrorCodeNoAdFound,
      CHBCacheErrorCodeSessionNotStarted, CHBCacheErrorCodeAssetDownloadFailure} \<and>
   CHBCacheErrorCode_value CHBCacheErrorCodeInternal = 0 \<and>
   CHBCacheErrorCode_value CHBCacheErrorCodeInternetUnavailable = 1 \<and>
   CHBCacheErrorCode_value CHBCacheErrorCodeNetworkFailure = 5 \<and>
   CHBCacheErrorCode_value CHBCacheErrorCodeNoAdFound = 6 \<and>
   CHBCacheErrorCode_value CHBCacheErrorCodeSessionNotStarted = 7 \<and>
   CHBCacheErrorCode_value CHBCacheErrorCodeAssetDownloadFailure = 16 \<and>
   UNIV = {CHBShowErrorCodeInternal, CHBShowErrorCodeSessionNotStarted,
      CHBShowErrorCodeAdAlreadyVisible, CHBShowErrorCodeInternetUnavailable,
      CHBShowErrorCodePresentationFailure, CHBShowErrorCodeNoCachedAd} \<and>
   CHBShowErrorCode_value CHBShowErrorCodeInternal = 0 \<and>
   CHBShowErrorCode_value CHBShowErrorCodeSessionNotStarted = 7 \<and>
   CHBShowErrorCode_value CHBShowErrorCodeAdAlreadyVisible = 8 \<and>
   CHBShowErrorCode_value CHBShowErrorCodeInternetUnavailable = 25 \<and>
   CHBShowErrorCode_value CHBShowErrorCodePresentationFailure = 33 \<and>
   CHBShowErrorCode_value CHBShowErrorCodeNoCachedAd = 34 \<and>
   UNIV = {CHBClickErrorCodeUriInvalid, CHBClickErrorCodeUriUnrecognized,
      CHBClickErrorCodeConfirmationGateFailure, CHBClickErrorCodeInternal} \<and>
   CHBClickErrorCode_value CHBClickErrorCodeUriInvalid = 0 \<and>
   CHBClickErrorCode_value CHBClickErrorCodeUriUnrecognized = 1 \<and>
   CHBClickErrorCode_value CHBClickErrorCodeConfirmationGateFailure = 2 \<and>
   CHBClickErrorCode_value CHBClickErrorCodeInternal = 3"
  using CHBCacheErrorCode_UNIV CHBShowErrorCode_UNIV CHBClickErrorCode_UNIV by simp

text \<open>
  C9. With no handler registered (the handle is null), \<open>sendChartboostEvent\<close> returns at
  once: no object is allocated, no call is made, the state is the one it was.
\<close>

theorem sendChartboostEvent_without_listener:
  "chartboostEventHandle s = None \<Longrightarrow>
   sendChartboostEvent type location uri reward_coins error status s = s"
  by (simp add: sendChartboostEvent_def)

text \<open>
  C9, at a concrete event in the initial state.
\<close>

theorem sendChartboostEvent_without_listener_witness:
  "chartboostEventHandle initial_state = None \<and>
   sendChartboostEvent ''didCacheInterstitial'' ''Default'' [] 0 0 True initial_state =
     \<lparr>chartboostEventHandle = None, objects = [], calls = []\<rparr>"
proof -
  have h: "chartboostEventHandle initial_state = None"
    by (simp add: initial_state_def)
  show ?thesis
    using h sendChartboostEvent_without_listener
      [OF h, of "''didCacheInterstitial''" "''Default''" "[]" 0 0 True]
    by (simp add: initial_state_def)
qed

text \<open>
  C10. Inside each enumeration different enumerators have different values. Across
  enumerations values repeat: 7 is SessionNotStarted for cache and for show errors, and 0 is
  Internal for cache and show errors but UriInvalid for click errors. So the number alone
  does not tell which error happened (a cache error and a click error share the code 0),
  while the number together with the kind of event does.
\<close>

theorem error_codes_need_their_event_kind:
  "(\<forall>x y. (CHBCacheErrorCode_value x = CHBCacheErrorCode_value y) = (x = y)) \<and>
   (\<forall>x y. (CHBShowErrorCode_value x = CHBShowErrorCode_value y) = (x = y)) \<and>
   (\<forall>x y. (CHBClickErrorCode_value x = CHBClickErrorCode_value y) = (x = y)) \<and>
   CHBCacheErrorCode_value CHBCacheErrorCodeSessionNotStarted = 7 \<and>
   CHBShowErrorCode_value CHBShowErrorCodeSessionNotStarted = 7 \<and>
   CHBCacheErrorCode_value CHBCacheErrorCodeInternal = 0 \<and>
   CHBShowErrorCode_value CHBShowErrorCodeInternal = 0 \<and>
   CHBClickErrorCode_value CHBClickErrorCodeUriInvalid = 0 \<and>
   code (CHBCacheError CHBCacheErrorCodeInternal) = code (CHBClickError CHBClickErrorCodeUriInvalid) \<and>
   CHBCacheError CHBCacheErrorCodeInternal \<noteq> CHBClickError CHBClickErrorCodeUriInvalid \<and>
   (\<forall>x y. (event_kind x = event_kind y \<and> code x = code y) = (x = y))"
proof -
  have "(event_kind x = event_kind y \<and> code x = code y) = (x = y)" for x y
    by (cases x; cases y)
       (simp_all add: CHBCacheErrorCode_value_inj CHBShowErrorCode_value_inj
          CHBClickErrorCode_value_inj)
  then show ?thesis
    by (simp add: CHBCacheErrorCode_value_inj CHBShowErrorCode_value_inj
        CHBClickErrorCode_value_inj)
qed

end
